theory Spec2Isabelle
  imports Complex_Main "HOL-Library.Word"
begin

unbundle bit_operations_syntax

section \<open>The I3G4250D gyroscope driver (I3G4250D.c, I3G4250D.h)\<close>

text \<open>
  A shallow embedding of the driver. The C integer types are words of their width.
  A C \<^verbatim>\<open>float\<close> is modelled by a real number and its arithmetic by exact real
  arithmetic: rounding, infinities and NaN are not represented. The sensitivity constants
  8.75, 17.50 and 70 are dyadic rationals, so they are binary32 values as they stand.
  The HAL (SPI transfers, the chip-select pin, the millisecond tick) is outside the
  repository: the bytes the bus delivers and the values the tick counter shows are
  taken from an environment, and what the driver sends is recorded in a trace.
  A store behind the end of an array is undefined behaviour in C: the model stops there
  with an error value instead of a result.
\<close>

type_synonym u8 = "8 word"
type_synonym i16 = "16 word"
type_synonym i32 = "32 word"
type_synonym u32 = "32 word"

subsection \<open>Constants of I3G4250D.h\<close>

definition I3G4250D_CTRL_REG1 :: u8 where "I3G4250D_CTRL_REG1 = 0x20"
definition I3G4250D_CTRL_REG2 :: u8 where "I3G4250D_CTRL_REG2 = 0x21"
definition I3G4250D_CTRL_REG4 :: u8 where "I3G4250D_CTRL_REG4 = 0x23"
definition I3G4250D_STATUS_ADDR :: u8 where "I3G4250D_STATUS_ADDR = 0x27"
definition I3G4250D_OUT_X_L_ADDR :: u8 where "I3G4250D_OUT_X_L_ADDR = 0x28"
definition I3G4250D_OUT_Y_L_ADDR :: u8 where "I3G4250D_OUT_Y_L_ADDR = 0x2A"
definition I3G4250D_OUT_Z_L_ADDR :: u8 where "I3G4250D_OUT_Z_L_ADDR = 0x2C"

definition I3G4250D_SCALE_245 :: u8 where "I3G4250D_SCALE_245 = 0x00"
definition I3G4250D_SCALE_500 :: u8 where "I3G4250D_SCALE_500 = 0x40"
definition I3G4250D_SCALE_2000 :: u8 where "I3G4250D_SCALE_2000 = 0x80"
definition I3G4250D_SCALE_2000_2 :: u8 where "I3G4250D_SCALE_2000_2 = 0xC0"

definition I3G4250D_SENSITIVTY_8_75 :: real where "I3G4250D_SENSITIVTY_8_75 = 8.75"
definition I3G4250D_SENSITIVTY_17_50 :: real where "I3G4250D_SENSITIVTY_17_50 = 17.50"
definition I3G4250D_SENSITIVTY_70 :: real where "I3G4250D_SENSITIVTY_70 = 70"

subsection \<open>Types of I3G4250D.h\<close>

record I3G4250D_InitTypeDef =
  ENABLED_AXIS :: u8
  ODR_BW_PRESET :: u8
  HPF_MODE :: u8
  HPCF_MODE :: u8
  FULLSCALE_SELECTION :: u8

text \<open>The fields \<^verbatim>\<open>x\<close>, \<^verbatim>\<open>y\<close>, \<^verbatim>\<open>z\<close> of the two data structs, prefixed to keep them apart.\<close>

record I3G4250D_DataRaw =
  raw_x :: i16
  raw_y :: i16
  raw_z :: i16

record I3G4250D_DataScaled =
  scaled_x :: real
  scaled_y :: real
  scaled_z :: real

subsection \<open>The HAL and the file's static variables\<close>

text \<open>
  What the driver does on the bus, in order: the two chip-select macros, and the HAL
  transfers with the bytes sent or the number of bytes asked for.
\<close>

datatype bus_event = CS_ENABLE | CS_DISABLE | SPI_Transmit "u8 list" | SPI_Receive nat

text \<open>
  The environment: \<open>spi_rx env k i\<close> is byte \<open>i\<close> of what the bus delivers to the
  \<open>k\<close>-th call of \<^verbatim>\<open>HAL_SPI_Receive\<close>, and \<open>tick_at env n\<close> is what the \<open>n\<close>-th call of
  \<^verbatim>\<open>HAL_GetTick\<close> returns (calls counted from 0).
\<close>

record hal_env =
  spi_rx :: "nat \<Rightarrow> nat \<Rightarrow> u8"
  tick_at :: "nat \<Rightarrow> u32"

text \<open>
  The static variables of I3G4250D.c (the SPI handle is an opaque HAL object of type
  \<open>'h\<close>, \<open>None\<close> before \<^verbatim>\<open>I3G4250D_Init\<close> has copied one), together with the trace of
  bus events and the number of HAL receive and tick calls made so far.
\<close>

record 'h driver =
  SPI_Handle :: "'h option"
  I3G4250D_Sensitivity :: real
  X_Bias :: real
  Y_Bias :: real
  Z_Bias :: real
  X_Scale :: real
  Y_Scale :: real
  Z_Scale :: real
  trace :: "bus_event list"
  rx_calls :: nat
  tick_calls :: nat

text \<open>The initialisers of the static variables, before any call of the driver.\<close>

definition I3G4250D_initial :: "'h driver" where
  "I3G4250D_initial =
     \<lparr> SPI_Handle = None,
       I3G4250D_Sensitivity = I3G4250D_SENSITIVTY_17_50,
       X_Bias = 0, Y_Bias = 0, Z_Bias = 0,
       X_Scale = 0, Y_Scale = 0, Z_Scale = 0,
       trace = [], rx_calls = 0, tick_calls = 0 \<rparr>"

definition bus :: "bus_event \<Rightarrow> 'h driver \<Rightarrow> 'h driver" where
  "bus e s = s\<lparr>trace := trace s @ [e]\<rparr>"

text \<open>
  \<^verbatim>\<open>HAL_SPI_Transmit(&SPI_Handle, buf, n, timeout)\<close> sends the first \<open>n\<close> bytes of \<open>buf\<close>.
  The HAL transfers of the model always complete: what the HAL does when its time-out
  (10 ms in both register functions) expires is not part of the repository.
\<close>

definition HAL_SPI_Transmit :: "u8 list \<Rightarrow> nat \<Rightarrow> 'h driver \<Rightarrow> 'h driver" where
  "HAL_SPI_Transmit buf n s = bus (SPI_Transmit (take n buf)) s"

text \<open>
  \<^verbatim>\<open>HAL_SPI_Receive(&SPI_Handle, buf, n, timeout)\<close> stores the \<open>n\<close> bytes the bus delivers
  at \<open>buf[0]\<close>, ..., \<open>buf[n-1]\<close>. When \<open>n\<close> is larger than the array \<open>buf\<close>, the
  bytes from \<open>buf[length buf]\<close> on are stored behind its end, over whatever lies there:
  the C program has no defined behaviour from then on, and the model returns
  \<open>Buffer_overrun\<close>.
\<close>

datatype error = Buffer_overrun

definition HAL_SPI_Receive ::
  "hal_env \<Rightarrow> u8 list \<Rightarrow> nat \<Rightarrow> 'h driver \<Rightarrow> error + u8 list \<times> 'h driver" where
  "HAL_SPI_Receive env buf n s =
     (if length buf < n then Inl Buffer_overrun
      else Inr (map (\<lambda>i. if i < n then spi_rx env (rx_calls s) i else buf ! i) [0..<length buf],
                (bus (SPI_Receive n) s)\<lparr>rx_calls := Suc (rx_calls s)\<rparr>))"

definition HAL_GetTick :: "hal_env \<Rightarrow> 'h driver \<Rightarrow> u32 \<times> 'h driver" where
  "HAL_GetTick env s = (tick_at env (tick_calls s), s\<lparr>tick_calls := Suc (tick_calls s)\<rparr>)"

subsection \<open>Register transactions\<close>

definition I3G4250D_WriteIO :: "u8 \<Rightarrow> u8 list \<Rightarrow> u8 \<Rightarrow> 'h driver \<Rightarrow> 'h driver" where
  "I3G4250D_WriteIO registerAddress writeData sz s =
     (let spiRegisterAddress = registerAddress;
          s1 = bus CS_ENABLE s;
          s2 = HAL_SPI_Transmit [spiRegisterAddress] 1 s1;
          s3 = HAL_SPI_Transmit writeData (unat sz) s2
      in bus CS_DISABLE s3)"

text \<open>
  The parameter \<^verbatim>\<open>size\<close> of the two functions is \<open>sz\<close> here. The copy loop of
  \<^verbatim>\<open>I3G4250D_ReadIO\<close> is
  \<^verbatim>\<open>for (uint8_t i = 0; i < (size & 0x3); i++) readData[i] = spiBuffer[i];\<close>
  with the counter \<open>i\<close>, which stays below 3, as a natural number. The caller's array
  is a list: an index behind its end changes nothing here, where C writes behind the
  array, so the statements about the copy ask for a list of at least \<open>size AND 3\<close> bytes.
\<close>

function ReadIO_copy :: "u8 list \<Rightarrow> u8 \<Rightarrow> nat \<Rightarrow> u8 list \<Rightarrow> u8 list" where
  "ReadIO_copy spiBuffer sz i readData =
     (if i < unat (sz AND 0x3)
      then ReadIO_copy spiBuffer sz (Suc i) (readData[i := spiBuffer ! i])
      else readData)"
  by pat_completeness auto
termination
  by (relation "measure (\<lambda>(spiBuffer, sz, i, readData). unat (sz AND 0x3) - i)") auto

declare ReadIO_copy.simps [simp del]

text \<open>
  \<^verbatim>\<open>spiBuffer[4]\<close> is a local array of four bytes: element 0 is set to the address with
  the read flag, elements 1 to 3 are uninitialised in C (0 here; the loop above copies
  received bytes only, as \<open>sz AND 3\<close> is at most \<open>sz\<close>). The function receives \<open>sz\<close>
  bytes into it without a check, so a size of 5 to 255 overruns it. The caller's array
  \<open>readData\<close> comes in as a list and goes out updated.
\<close>

definition I3G4250D_ReadIO ::
  "hal_env \<Rightarrow> u8 \<Rightarrow> u8 list \<Rightarrow> u8 \<Rightarrow> 'h driver \<Rightarrow> error + u8 list \<times> 'h driver" where
  "I3G4250D_ReadIO env registerAddress readData sz s =
     (let spiBuffer0 = [registerAddress OR 0x80, 0, 0, 0];
          s1 = bus CS_ENABLE s;
          s2 = HAL_SPI_Transmit spiBuffer0 1 s1
      in case HAL_SPI_Receive env spiBuffer0 (unat sz) s2 of
           Inl e \<Rightarrow> Inl e
         | Inr (spiBuffer, s3) \<Rightarrow>
             (let s4 = bus CS_DISABLE s3
              in Inr (ReadIO_copy spiBuffer sz 0 readData, s4)))"

subsection \<open>Initialisation\<close>

definition I3G4250D_Init :: "'h \<Rightarrow> I3G4250D_InitTypeDef \<Rightarrow> 'h driver \<Rightarrow> 'h driver" where
  "I3G4250D_Init accelerometerSPI accelerometerInit s =
     (let spiData = (0 :: u8);
          s0 = s\<lparr>SPI_Handle := Some accelerometerSPI\<rparr>;
          spiData = spiData OR (ENABLED_AXIS accelerometerInit AND 0x0F);
          spiData = spiData OR (ODR_BW_PRESET accelerometerInit AND 0xF0);
          s1 = I3G4250D_WriteIO I3G4250D_CTRL_REG1 [spiData] 1 s0;
          spiData = (0 :: u8);
          spiData = spiData OR (HPF_MODE accelerometerInit AND 0x30);
          spiData = spiData OR (HPCF_MODE accelerometerInit AND 0x0F);
          s2 = I3G4250D_WriteIO I3G4250D_CTRL_REG2 [spiData] 1 s1;
          spiData = (0 :: u8);
          spiData = spiData OR (FULLSCALE_SELECTION accelerometerInit AND 0x30);
          spiData = spiData OR (0x00 AND 0x00);
          s3 = I3G4250D_WriteIO I3G4250D_CTRL_REG4 [spiData] 1 s2;
          s4 = (if FULLSCALE_SELECTION accelerometerInit = I3G4250D_SCALE_245
                  then s3\<lparr>I3G4250D_Sensitivity := I3G4250D_SENSITIVTY_8_75\<rparr>
                else if FULLSCALE_SELECTION accelerometerInit = I3G4250D_SCALE_500
                  then s3\<lparr>I3G4250D_Sensitivity := I3G4250D_SENSITIVTY_17_50\<rparr>
                else if FULLSCALE_SELECTION accelerometerInit = I3G4250D_SCALE_2000
                  then s3\<lparr>I3G4250D_Sensitivity := I3G4250D_SENSITIVTY_70\<rparr>
                else if FULLSCALE_SELECTION accelerometerInit = I3G4250D_SCALE_2000_2
                  then s3\<lparr>I3G4250D_Sensitivity := I3G4250D_SENSITIVTY_70\<rparr>
                else s3)
      in bus CS_DISABLE s4)"

subsection \<open>Data acquisition\<close>

text \<open>
  \<^verbatim>\<open>(spiBuffer[1] << 8) + spiBuffer[0]\<close>: both bytes are promoted to \<^verbatim>\<open>int\<close>, and the sum
  is converted to \<^verbatim>\<open>int16_t\<close> by the assignment (the low 16 bits).
\<close>

definition assemble :: "u8 list \<Rightarrow> i16" where
  "assemble spiBuffer =
     ucast (push_bit 8 (ucast (spiBuffer ! 1) :: i32) + (ucast (spiBuffer ! 0) :: i32))"

text \<open>
  \<open>tempRawData\<close> is the local struct as it is found on the stack: C does not initialise
  it, so its contents on entry are an argument. The local \<^verbatim>\<open>spiBuffer[2]\<close> is
  overwritten by each read before it is used. An error of a read ends the call (with
  the size 2 of the three reads here there is none).
\<close>

definition I3G4250D_GetRawData ::
  "hal_env \<Rightarrow> I3G4250D_DataRaw \<Rightarrow> 'h driver \<Rightarrow> error + I3G4250D_DataRaw \<times> 'h driver" where
  "I3G4250D_GetRawData env tempRawData s =
     (let spiBuffer = [0, 0]
      in case I3G4250D_ReadIO env I3G4250D_OUT_X_L_ADDR spiBuffer 2 s of
           Inl e \<Rightarrow> Inl e
         | Inr (spiBuffer, s1) \<Rightarrow>
     (let tempRawData = tempRawData\<lparr>raw_x := assemble spiBuffer\<rparr>
      in case I3G4250D_ReadIO env I3G4250D_OUT_Y_L_ADDR spiBuffer 2 s1 of
           Inl e \<Rightarrow> Inl e
         | Inr (spiBuffer, s2) \<Rightarrow>
     (let tempRawData = tempRawData\<lparr>raw_x := assemble spiBuffer\<rparr>
      in case I3G4250D_ReadIO env I3G4250D_OUT_Z_L_ADDR spiBuffer 2 s2 of
           Inl e \<Rightarrow> Inl e
         | Inr (spiBuffer, s3) \<Rightarrow>
     (let tempRawData = tempRawData\<lparr>raw_x := assemble spiBuffer\<rparr>
      in Inr (tempRawData, s3)))))"

text \<open>An \<^verbatim>\<open>int16_t\<close> operand of a float product is converted from its signed value.\<close>

definition float_of_i16 :: "i16 \<Rightarrow> real" where
  "float_of_i16 v = real_of_int (sint v)"

definition I3G4250D_GetScaledData ::
  "hal_env \<Rightarrow> I3G4250D_DataRaw \<Rightarrow> 'h driver \<Rightarrow> error + I3G4250D_DataScaled \<times> 'h driver" where
  "I3G4250D_GetScaledData env uninit s =
     (case I3G4250D_GetRawData env uninit s of
        Inl e \<Rightarrow> Inl e
      | Inr (tempRawData, s1) \<Rightarrow>
     (let scaledData =
            \<lparr> scaled_x = (float_of_i16 (raw_x tempRawData) * I3G4250D_Sensitivity s1 * X_Scale s1)
                           + 0 - X_Bias s1,
              scaled_y = (float_of_i16 (raw_x tempRawData) * I3G4250D_Sensitivity s1 * Y_Scale s1)
                           + 0 - Y_Bias s1,
              scaled_z = (float_of_i16 (raw_x tempRawData) * I3G4250D_Sensitivity s1 * Z_Scale s1)
                           + 0 - Z_Bias s1 \<rparr>
      in Inr (scaledData, s1)))"

subsection \<open>Calibration\<close>

text \<open>
  In C, \<open>x_max = x_min\<close> divides by zero and stores an infinity or a NaN, without a trap;
  the real-number model has no such value, and nothing below relies on that case.
\<close>

definition I3G4250D_X_Calibrate :: "real \<Rightarrow> real \<Rightarrow> 'h driver \<Rightarrow> 'h driver" where
  "I3G4250D_X_Calibrate x_min x_max s =
     s\<lparr>X_Bias := (x_max + x_min) / 2, X_Scale := (2 * 1000) / (x_max - x_min)\<rparr>"

definition I3G4250D_Y_Calibrate :: "real \<Rightarrow> real \<Rightarrow> 'h driver \<Rightarrow> 'h driver" where
  "I3G4250D_Y_Calibrate y_min y_max s =
     s\<lparr>Y_Bias := (y_max + y_min) / 2, Y_Scale := (2 * 1000) / (y_max - y_min)\<rparr>"

definition I3G4250D_Z_Calibrate :: "real \<Rightarrow> real \<Rightarrow> 'h driver \<Rightarrow> 'h driver" where
  "I3G4250D_Z_Calibrate z_min z_max s =
     s\<lparr>Z_Bias := (z_max + z_min) / 2, Z_Scale := (2 * 1000) / (z_max - z_min)\<rparr>"

subsection \<open>Polling for new data\<close>

text \<open>
  The \<^verbatim>\<open>do ... while\<close> loop of \<^verbatim>\<open>I3G4250D_DataReady\<close>, one call per iteration. The
  loop may run forever, so it returns an option: \<open>None\<close> is a call that never returns.
  An error of the status read ends the call (with its size 1 there is none).
  \<open>startTick\<close> is the \<^verbatim>\<open>uint8_t\<close> local; in \<^verbatim>\<open>HAL_GetTick() - startTick < msTimeOut\<close>
  it is converted to 32 bits and the comparison is unsigned. The tick is read only when
  \<^verbatim>\<open>(Acc_status & 0x07) == 0\<close>, as \<^verbatim>\<open>&&\<close> evaluates its right operand only then.
\<close>

partial_function (option) DataReady_loop ::
  "hal_env \<Rightarrow> u8 \<Rightarrow> u32 \<Rightarrow> 'h driver \<Rightarrow> (error + bool \<times> 'h driver) option" where
  "DataReady_loop env startTick msTimeOut s =
     (case I3G4250D_ReadIO env I3G4250D_STATUS_ADDR [0] 1 s of
        Inl e \<Rightarrow> Some (Inl e)
      | Inr (buf, s1) \<Rightarrow>
        (let Acc_status = buf ! 0 in
         if Acc_status AND 0x07 = 0
         then (case HAL_GetTick env s1 of (now, s2) \<Rightarrow>
                 if now - ucast startTick < msTimeOut
                 then DataReady_loop env startTick msTimeOut s2
                 else Some (Inr (Acc_status AND 0x07 \<noteq> 0, s2)))
         else Some (Inr (Acc_status AND 0x07 \<noteq> 0, s1))))"

definition I3G4250D_DataReady ::
  "hal_env \<Rightarrow> u32 \<Rightarrow> 'h driver \<Rightarrow> (error + bool \<times> 'h driver) option" where
  "I3G4250D_DataReady env msTimeOut s =
     (case HAL_GetTick env s of (t, s0) \<Rightarrow>
        (let startTick = (ucast t :: u8) in DataReady_loop env startTick msTimeOut s0))"

text \<open>
  \<open>Acc_status\<close> is uninitialised before the first read (0 here) and overwritten by
  it. One status read changes the trace and the number of receive calls as follows.
\<close>

definition poll :: "'h driver \<Rightarrow> 'h driver" where
  "poll s = s\<lparr>trace := trace s @ [CS_ENABLE, SPI_Transmit [0xA7], SPI_Receive 1, CS_DISABLE],
             rx_calls := Suc (rx_calls s)\<rparr>"

subsection \<open>Inputs used in the examples below\<close>

text \<open>
  A bus that delivers the byte pairs \<open>xb\<close>, \<open>yb\<close> and \<open>zb\<close> (low byte, then high byte
  repeated) in the first, the second and every later receive call, and the contents of
  an uninitialised raw-data struct.
\<close>

definition axes_env :: "u8 \<times> u8 \<Rightarrow> u8 \<times> u8 \<Rightarrow> u8 \<times> u8 \<Rightarrow> hal_env" where
  "axes_env xb yb zb =
     \<lparr> spi_rx = (\<lambda>k i. if k = 0 then (if i = 0 then fst xb else snd xb)
                      else if k = 1 then (if i = 0 then fst yb else snd yb)
                      else (if i = 0 then fst zb else snd zb)),
       tick_at = (\<lambda>n. 0) \<rparr>"

text \<open>A configuration with all axes enabled, the low rate preset and a given full scale.\<close>

definition example_cfg :: "u8 \<Rightarrow> I3G4250D_InitTypeDef" where
  "example_cfg fs =
     \<lparr> ENABLED_AXIS = 0x0F, ODR_BW_PRESET = 0x10, HPF_MODE = 0x00, HPCF_MODE = 0x00,
       FULLSCALE_SELECTION = fs \<rparr>"

text \<open>
  A status register that never shows new data, with a tick counter that starts at
  \<open>start\<close> and advances by one from each reading to the next.
\<close>

definition counting_env :: "u32 \<Rightarrow> hal_env" where
  "counting_env start = \<lparr> spi_rx = (\<lambda>k i. 0), tick_at = (\<lambda>n. start + of_nat n) \<rparr>"

text \<open>
  A status register that shows no new data at the first read and new data on all axes
  from the second read on, while the tick counter stands at 256.
\<close>

definition late_ready_env :: hal_env where
  "late_ready_env =
     \<lparr> spi_rx = (\<lambda>k i. if k = 0 then 0x00 else 0x0F), tick_at = (\<lambda>n. 0x100) \<rparr>"

text \<open>The initial state after each axis has been calibrated with the range -500 to 500.\<close>

definition calibrated :: "unit driver" where
  "calibrated =
     I3G4250D_Z_Calibrate (- 500) 500
       (I3G4250D_Y_Calibrate (- 500) 500
         (I3G4250D_X_Calibrate (- 500) 500 I3G4250D_initial))"

definition stack_garbage :: I3G4250D_DataRaw where
  "stack_garbage = \<lparr> raw_x = 0xAAAA, raw_y = 0xBBBB, raw_z = 0xCCCC \<rparr>"

section \<open>Properties\<close>

lemmas I3G4250D_consts =
  I3G4250D_CTRL_REG1_def I3G4250D_CTRL_REG2_def I3G4250D_CTRL_REG4_def
  I3G4250D_STATUS_ADDR_def I3G4250D_OUT_X_L_ADDR_def I3G4250D_OUT_Y_L_ADDR_def
  I3G4250D_OUT_Z_L_ADDR_def I3G4250D_SCALE_245_def I3G4250D_SCALE_500_def
  I3G4250D_SCALE_2000_def I3G4250D_SCALE_2000_2_def I3G4250D_SENSITIVTY_8_75_def
  I3G4250D_SENSITIVTY_17_50_def I3G4250D_SENSITIVTY_70_def

subsection \<open>Register transactions\<close>

lemma WriteIO_eq:
  "I3G4250D_WriteIO a d n s =
     s\<lparr>trace := trace s @
         [CS_ENABLE, SPI_Transmit [a], SPI_Transmit (take (unat n) d), CS_DISABLE]\<rparr>"
  by (simp add: I3G4250D_WriteIO_def HAL_SPI_Transmit_def bus_def)

lemma and3_le3: "unat ((sz::u8) AND 0x3) \<le> 3"
proof -
  have "sz AND 3 \<le> 3" by (rule word_and_le1)
  then show ?thesis by (simp add: word_le_nat_alt)
qed

lemma and3_le_sz: "unat ((sz::u8) AND 0x3) \<le> unat sz"
proof -
  have "sz AND 3 \<le> sz" by (rule word_and_le2)
  then show ?thesis by (simp add: word_le_nat_alt)
qed

lemma ReadIO_copy_length: "length (ReadIO_copy buf sz i rd) = length rd"
proof (induction buf sz i rd rule: ReadIO_copy.induct)
  case (1 spiBuffer sz i readData)
  then show ?case by (subst ReadIO_copy.simps) simp
qed

lemma ReadIO_copy_nth:
  "j < length rd \<Longrightarrow>
   ReadIO_copy buf sz i rd ! j = (if i \<le> j \<and> j < unat (sz AND 0x3) then buf ! j else rd ! j)"
proof (induction buf sz i rd rule: ReadIO_copy.induct)
  case (1 spiBuffer sz i readData)
  show ?case
  proof (cases "i < unat (sz AND 0x3)")
    case True
    then have "ReadIO_copy spiBuffer sz i readData ! j =
      ReadIO_copy spiBuffer sz (Suc i) (readData[i := spiBuffer ! i]) ! j"
      by (subst ReadIO_copy.simps) simp
    also have "\<dots> = (if Suc i \<le> j \<and> j < unat (sz AND 0x3) then spiBuffer ! j
                      else (readData[i := spiBuffer ! i]) ! j)"
      using "1.IH" [OF True] "1.prems" by simp
    also have "\<dots> = (if i \<le> j \<and> j < unat (sz AND 0x3) then spiBuffer ! j else readData ! j)"
      using True "1.prems" by (cases "i = j") auto
    finally show ?thesis .
  next
    case False
    then show ?thesis by (subst ReadIO_copy.simps) auto
  qed
qed

lemma Receive_fits:
  assumes "n \<le> length buf"
  shows "HAL_SPI_Receive env buf n s =
     Inr (map (\<lambda>i. if i < n then spi_rx env (rx_calls s) i else buf ! i) [0..<length buf],
          (bus (SPI_Receive n) s)\<lparr>rx_calls := Suc (rx_calls s)\<rparr>)"
  using assms by (simp add: HAL_SPI_Receive_def)

lemma Receive_overrun:
  assumes "length buf < n"
  shows "HAL_SPI_Receive env buf n s = Inl Buffer_overrun"
  using assms by (simp add: HAL_SPI_Receive_def)

lemma copy_received:
  assumes "unat (sz AND 0x3) \<le> length rd" and "unat (sz AND 0x3) \<le> n"
      and "unat (sz AND 0x3) \<le> length buf"
  shows "ReadIO_copy (map (\<lambda>i. if i < n then f i else buf ! i) [0..<length buf]) sz 0 rd =
     map f [0..<unat (sz AND 0x3)] @ drop (unat (sz AND 0x3)) rd"
    (is "ReadIO_copy ?B sz 0 rd = ?R")
proof (rule nth_equalityI)
  show "length (ReadIO_copy ?B sz 0 rd) = length ?R"
    using assms by (simp add: ReadIO_copy_length)
next
  fix j assume "j < length (ReadIO_copy ?B sz 0 rd)"
  then have j: "j < length rd" by (simp add: ReadIO_copy_length)
  show "ReadIO_copy ?B sz 0 rd ! j = ?R ! j"
  proof (cases "j < unat (sz AND 0x3)")
    case True
    with assms have "j < n" "j < length buf" by simp_all
    with True j show ?thesis by (simp add: ReadIO_copy_nth nth_append)
  next
    case False
    with j assms show ?thesis by (simp add: ReadIO_copy_nth nth_append)
  qed
qed

lemma ReadIO_data:
  assumes "unat sz \<le> 4" and "unat (sz AND 0x3) \<le> length rd"
  shows "I3G4250D_ReadIO env a rd sz s =
     Inr (map (spi_rx env (rx_calls s)) [0..<unat (sz AND 0x3)] @ drop (unat (sz AND 0x3)) rd,
          s\<lparr>trace := trace s @
              [CS_ENABLE, SPI_Transmit [a OR 0x80], SPI_Receive (unat sz), CS_DISABLE],
            rx_calls := Suc (rx_calls s)\<rparr>)"
proof -
  let ?buf = "[a OR 0x80, 0, 0, 0] :: u8 list"
  let ?s2 = "HAL_SPI_Transmit ?buf 1 (bus CS_ENABLE s)"
  have len: "unat sz \<le> length ?buf" using assms(1) by simp
  have rx: "rx_calls ?s2 = rx_calls s" by (simp add: HAL_SPI_Transmit_def bus_def)
  have c: "ReadIO_copy (map (\<lambda>i. if i < unat sz then spi_rx env (rx_calls ?s2) i else ?buf ! i)
              [0..<length ?buf]) sz 0 rd =
           map (spi_rx env (rx_calls s)) [0..<unat (sz AND 0x3)] @ drop (unat (sz AND 0x3)) rd"
    unfolding rx
  proof (rule copy_received)
    show "unat (sz AND 0x3) \<le> length rd" by (rule assms(2))
    show "unat (sz AND 0x3) \<le> unat sz" by (rule and3_le_sz)
    show "unat (sz AND 0x3) \<le> length ?buf" using and3_le3 [of sz] by simp
  qed
  have "I3G4250D_ReadIO env a rd sz s =
      Inr (ReadIO_copy (map (\<lambda>i. if i < unat sz then spi_rx env (rx_calls ?s2) i else ?buf ! i)
              [0..<length ?buf]) sz 0 rd,
           bus CS_DISABLE ((bus (SPI_Receive (unat sz)) ?s2)\<lparr>rx_calls := Suc (rx_calls ?s2)\<rparr>))"
    by (simp only: I3G4250D_ReadIO_def Let_def Receive_fits [OF len] sum.case prod.case)
  also have "\<dots> = Inr (map (spi_rx env (rx_calls s)) [0..<unat (sz AND 0x3)] @
                          drop (unat (sz AND 0x3)) rd,
          s\<lparr>trace := trace s @
              [CS_ENABLE, SPI_Transmit [a OR 0x80], SPI_Receive (unat sz), CS_DISABLE],
            rx_calls := Suc (rx_calls s)\<rparr>)"
    unfolding c by (simp add: HAL_SPI_Transmit_def bus_def)
  finally show ?thesis .
qed

lemma ReadIO_overrun:
  assumes "4 < unat sz"
  shows "I3G4250D_ReadIO env a rd sz s = Inl Buffer_overrun"
proof -
  have len: "length ([a OR 0x80, 0, 0, 0] :: u8 list) < unat sz" using assms by simp
  show ?thesis
    by (simp only: I3G4250D_ReadIO_def Let_def Receive_overrun [OF len] sum.case)
qed

text \<open>
  For a size of at most 4 the read does what the copy loop says: sizes 3 and 4, asked of
  a bus that delivers 0xA1 and then 0xA2 again and again, copy three bytes and no byte
  to the front of the caller's five bytes.
\<close>

lemma ReadIO_example:
  "I3G4250D_ReadIO (axes_env (0xA1, 0xA2) (0, 0) (0, 0)) 0x28
      [0x11, 0x22, 0x33, 0x44, 0x55] 3 (I3G4250D_initial :: unit driver) =
     Inr ([0xA1, 0xA2, 0xA2, 0x44, 0x55],
          I3G4250D_initial\<lparr>trace := [CS_ENABLE, SPI_Transmit [0xA8], SPI_Receive 3, CS_DISABLE],
            rx_calls := 1\<rparr>)
   \<and> I3G4250D_ReadIO (axes_env (0xA1, 0xA2) (0, 0) (0, 0)) 0x28
      [0x11, 0x22, 0x33, 0x44, 0x55] 4 (I3G4250D_initial :: unit driver) =
     Inr ([0x11, 0x22, 0x33, 0x44, 0x55],
          I3G4250D_initial\<lparr>trace := [CS_ENABLE, SPI_Transmit [0xA8], SPI_Receive 4, CS_DISABLE],
            rx_calls := 1\<rparr>)"
proof -
  have n3: "unat ((3::u8) AND 0x3) = 3" and n4: "unat ((4::u8) AND 0x3) = 0" by simp_all
  show ?thesis
    by (simp add: ReadIO_data n3 n4 axes_env_def I3G4250D_initial_def upt_rec)
qed

text \<open>
  C4. The claim: for every requested size the function receives \<open>size\<close> bytes into its
  staging buffer and copies exactly \<open>size AND 3\<close> of them to the caller's buffer. The
  code, asked for 5 bytes (5 AND 3 = 1) and for 255 bytes: it receives them into
  \<^verbatim>\<open>spiBuffer[4]\<close>, an array of four bytes, and so stores behind the end of that array;
  the call has no defined result.
\<close>

theorem C4_ReadIO_overruns_staging_buffer:
  "I3G4250D_ReadIO (axes_env (0xA1, 0xA2) (0, 0) (0, 0)) 0x28
      [0x11, 0x22, 0x33, 0x44, 0x55] 5 (I3G4250D_initial :: unit driver) = Inl Buffer_overrun
   \<and> I3G4250D_ReadIO (axes_env (0xA1, 0xA2) (0, 0) (0, 0)) 0x28
      [0x11, 0x22, 0x33, 0x44, 0x55] 255 (I3G4250D_initial :: unit driver) = Inl Buffer_overrun"
  by (simp add: ReadIO_overrun)

subsection \<open>Initialisation\<close>

lemma Init_trace:
  "trace (I3G4250D_Init h cfg s) = trace s @
     [CS_ENABLE, SPI_Transmit [I3G4250D_CTRL_REG1],
      SPI_Transmit [(ENABLED_AXIS cfg AND 0x0F) OR (ODR_BW_PRESET cfg AND 0xF0)], CS_DISABLE,
      CS_ENABLE, SPI_Transmit [I3G4250D_CTRL_REG2],
      SPI_Transmit [(HPF_MODE cfg AND 0x30) OR (HPCF_MODE cfg AND 0x0F)], CS_DISABLE,
      CS_ENABLE, SPI_Transmit [I3G4250D_CTRL_REG4],
      SPI_Transmit [FULLSCALE_SELECTION cfg AND 0x30], CS_DISABLE,
      CS_DISABLE]"
  by (simp add: I3G4250D_Init_def WriteIO_eq bus_def Let_def)

lemma Init_Sensitivity:
  "I3G4250D_Sensitivity (I3G4250D_Init h cfg s) =
     (if FULLSCALE_SELECTION cfg = I3G4250D_SCALE_245 then I3G4250D_SENSITIVTY_8_75
      else if FULLSCALE_SELECTION cfg = I3G4250D_SCALE_500 then I3G4250D_SENSITIVTY_17_50
      else if FULLSCALE_SELECTION cfg = I3G4250D_SCALE_2000 then I3G4250D_SENSITIVTY_70
      else if FULLSCALE_SELECTION cfg = I3G4250D_SCALE_2000_2 then I3G4250D_SENSITIVTY_70
      else I3G4250D_Sensitivity s)"
  by (simp add: I3G4250D_Init_def WriteIO_eq bus_def Let_def)

text \<open>
  C9. For every axis-enable mask and every output-data-rate/bandwidth preset, the first
  transaction of \<^verbatim>\<open>I3G4250D_Init\<close> sends the address of control register 1 (0x20) followed
  by the one byte \<open>(mask AND 0x0F) OR (preset AND 0xF0)\<close>.
\<close>

theorem C9_Init_ctrl_reg1_byte:
  "take 4 (drop (length (trace s)) (trace (I3G4250D_Init h cfg s))) =
     [CS_ENABLE, SPI_Transmit [0x20],
      SPI_Transmit [(ENABLED_AXIS cfg AND 0x0F) OR (ODR_BW_PRESET cfg AND 0xF0)], CS_DISABLE]"
  by (simp add: Init_trace I3G4250D_CTRL_REG1_def)

text \<open>
  C5. For a configuration whose full-scale selection is one of the four values of the
  header (245, 500, 2000 and the second 2000), \<^verbatim>\<open>I3G4250D_Init\<close> sets the sensitivity
  to 8.75, 17.50, 70 and 70.
\<close>

theorem C5_Init_sets_Sensitivity:
  "(FULLSCALE_SELECTION cfg = I3G4250D_SCALE_245 \<longrightarrow>
      I3G4250D_Sensitivity (I3G4250D_Init h cfg s) = 8.75) \<and>
   (FULLSCALE_SELECTION cfg = I3G4250D_SCALE_500 \<longrightarrow>
      I3G4250D_Sensitivity (I3G4250D_Init h cfg s) = 17.50) \<and>
   (FULLSCALE_SELECTION cfg = I3G4250D_SCALE_2000 \<longrightarrow>
      I3G4250D_Sensitivity (I3G4250D_Init h cfg s) = 70) \<and>
   (FULLSCALE_SELECTION cfg = I3G4250D_SCALE_2000_2 \<longrightarrow>
      I3G4250D_Sensitivity (I3G4250D_Init h cfg s) = 70)"
  by (simp add: Init_Sensitivity I3G4250D_consts)

theorem C5_Init_sets_Sensitivity_witness:
  "FULLSCALE_SELECTION (example_cfg 0x00) = I3G4250D_SCALE_245 \<and>
   I3G4250D_Sensitivity (I3G4250D_Init () (example_cfg 0x00) I3G4250D_initial) = 8.75 \<and>
   FULLSCALE_SELECTION (example_cfg 0x40) = I3G4250D_SCALE_500 \<and>
   I3G4250D_Sensitivity (I3G4250D_Init () (example_cfg 0x40)
      (I3G4250D_initial\<lparr>I3G4250D_Sensitivity := 70\<rparr>)) = 17.50 \<and>
   FULLSCALE_SELECTION (example_cfg 0x80) = I3G4250D_SCALE_2000 \<and>
   I3G4250D_Sensitivity (I3G4250D_Init () (example_cfg 0x80) I3G4250D_initial) = 70 \<and>
   FULLSCALE_SELECTION (example_cfg 0xC0) = I3G4250D_SCALE_2000_2 \<and>
   I3G4250D_Sensitivity (I3G4250D_Init () (example_cfg 0xC0) I3G4250D_initial) = 70"
  using
    C5_Init_sets_Sensitivity [of "example_cfg 0x00" "()" I3G4250D_initial]
    C5_Init_sets_Sensitivity [of "example_cfg 0x40" "()"
      "I3G4250D_initial\<lparr>I3G4250D_Sensitivity := 70\<rparr>"]
    C5_Init_sets_Sensitivity [of "example_cfg 0x80" "()" I3G4250D_initial]
    C5_Init_sets_Sensitivity [of "example_cfg 0xC0" "()" I3G4250D_initial]
  by (simp add: example_cfg_def I3G4250D_SCALE_245_def I3G4250D_SCALE_500_def
        I3G4250D_SCALE_2000_def I3G4250D_SCALE_2000_2_def)

text \<open>
  C8. For a configuration whose full-scale selection is none of the four values of the
  header, \<^verbatim>\<open>I3G4250D_Init\<close> leaves the sensitivity as it was. (It returns a state like
  every other call: the function has no error result.)
\<close>

theorem C8_Init_keeps_Sensitivity:
  assumes "FULLSCALE_SELECTION cfg \<notin>
             {I3G4250D_SCALE_245, I3G4250D_SCALE_500, I3G4250D_SCALE_2000, I3G4250D_SCALE_2000_2}"
  shows "I3G4250D_Sensitivity (I3G4250D_Init h cfg s) = I3G4250D_Sensitivity s"
  using assms by (simp add: Init_Sensitivity)

theorem C8_Init_keeps_Sensitivity_witness:
  "FULLSCALE_SELECTION (example_cfg 0x10) \<notin>
      {I3G4250D_SCALE_245, I3G4250D_SCALE_500, I3G4250D_SCALE_2000, I3G4250D_SCALE_2000_2}
   \<and> I3G4250D_Sensitivity (I3G4250D_Init () (example_cfg 0x10)
        (I3G4250D_initial\<lparr>I3G4250D_Sensitivity := 70\<rparr>)) = 70"
proof -
  have h: "FULLSCALE_SELECTION (example_cfg 0x10) \<notin>
      {I3G4250D_SCALE_245, I3G4250D_SCALE_500, I3G4250D_SCALE_2000, I3G4250D_SCALE_2000_2}"
    by (simp add: example_cfg_def I3G4250D_SCALE_245_def I3G4250D_SCALE_500_def
          I3G4250D_SCALE_2000_def I3G4250D_SCALE_2000_2_def)
  show ?thesis
    using h C8_Init_keeps_Sensitivity [OF h, of "()" "I3G4250D_initial\<lparr>I3G4250D_Sensitivity := 70\<rparr>"]
    by simp
qed

subsection \<open>Data acquisition\<close>

lemma ReadIO_2:
  "I3G4250D_ReadIO env a [b0, b1] 2 s =
     Inr ([spi_rx env (rx_calls s) 0, spi_rx env (rx_calls s) 1],
      s\<lparr>trace := trace s @ [CS_ENABLE, SPI_Transmit [a OR 0x80], SPI_Receive 2, CS_DISABLE],
        rx_calls := Suc (rx_calls s)\<rparr>)"
proof -
  have n: "unat ((2::u8) AND 0x3) = 2" by simp
  show ?thesis by (subst ReadIO_data) (simp_all add: n upt_rec)
qed

lemma ReadIO_1:
  "I3G4250D_ReadIO env a [b0] 1 s =
     Inr ([spi_rx env (rx_calls s) 0],
      s\<lparr>trace := trace s @ [CS_ENABLE, SPI_Transmit [a OR 0x80], SPI_Receive 1, CS_DISABLE],
        rx_calls := Suc (rx_calls s)\<rparr>)"
proof -
  have n: "unat ((1::u8) AND 0x3) = 1" by simp
  show ?thesis by (subst ReadIO_data) (simp_all add: n)
qed

text \<open>The sum of the shifted high byte and the low byte is their bitwise OR.\<close>

lemma assemble_or: "assemble [lo, hi] = push_bit 8 (ucast hi) OR ucast lo"
proof -
  have disj: "push_bit 8 (ucast hi :: i32) AND (ucast lo :: i32) = 0"
    by (rule bit_eqI) (auto simp add: bit_simps dest: bit_imp_le_length)
  have "push_bit 8 (ucast hi :: i32) + (ucast lo :: i32) = push_bit 8 (ucast hi) OR ucast lo"
    by (rule disjunctive_add_eq_or) (rule disj)
  then have "assemble [lo, hi] = ucast (push_bit 8 (ucast hi :: i32) OR (ucast lo :: i32))"
    by (simp add: assemble_def)
  also have "\<dots> = push_bit 8 (ucast hi) OR ucast lo"
    by (rule bit_eqI) (auto simp add: bit_simps dest: bit_imp_le_length)
  finally show ?thesis .
qed

lemma assemble_example: "assemble [0x34, 0x12] = 0x1234 \<and> sint (assemble [0x34, 0x12]) = 4660"
  by (simp add: assemble_def)

text \<open>
  What \<^verbatim>\<open>I3G4250D_GetRawData\<close> returns, for every bus: three reads of two bytes at the
  addresses 0x28, 0x2A and 0x2C (with the read flag: 0xA8, 0xAA, 0xAC), and a struct
  whose \<open>x\<close> holds the value assembled from the third read while \<open>y\<close> and \<open>z\<close>
  are what they were on entry.
\<close>

lemma GetRawData_eq:
  "I3G4250D_GetRawData env tmp s =
     Inr (tmp\<lparr>raw_x := assemble [spi_rx env (rx_calls s + 2) 0, spi_rx env (rx_calls s + 2) 1]\<rparr>,
      s\<lparr>trace := trace s @
           [CS_ENABLE, SPI_Transmit [0xA8], SPI_Receive 2, CS_DISABLE,
            CS_ENABLE, SPI_Transmit [0xAA], SPI_Receive 2, CS_DISABLE,
            CS_ENABLE, SPI_Transmit [0xAC], SPI_Receive 2, CS_DISABLE],
        rx_calls := rx_calls s + 3\<rparr>)"
  by (simp add: I3G4250D_GetRawData_def ReadIO_2 Let_def I3G4250D_consts)

lemma GetScaledData_eq:
  "I3G4250D_GetScaledData env tmp s =
     Inr (\<lparr> scaled_x = float_of_i16 (assemble [spi_rx env (rx_calls s + 2) 0, spi_rx env (rx_calls s + 2) 1])
                    * I3G4250D_Sensitivity s * X_Scale s - X_Bias s,
       scaled_y = float_of_i16 (assemble [spi_rx env (rx_calls s + 2) 0, spi_rx env (rx_calls s + 2) 1])
                    * I3G4250D_Sensitivity s * Y_Scale s - Y_Bias s,
       scaled_z = float_of_i16 (assemble [spi_rx env (rx_calls s + 2) 0, spi_rx env (rx_calls s + 2) 1])
                    * I3G4250D_Sensitivity s * Z_Scale s - Z_Bias s \<rparr>,
      s\<lparr>trace := trace s @
           [CS_ENABLE, SPI_Transmit [0xA8], SPI_Receive 2, CS_DISABLE,
            CS_ENABLE, SPI_Transmit [0xAA], SPI_Receive 2, CS_DISABLE,
            CS_ENABLE, SPI_Transmit [0xAC], SPI_Receive 2, CS_DISABLE],
        rx_calls := rx_calls s + 3\<rparr>)"
  by (simp add: I3G4250D_GetScaledData_def GetRawData_eq)

text \<open>
  C1. The claim: each axis's assembled value goes to that axis's own field, so the bytes
  0x34, 0x12 on an axis give 0x1234 in its field. The code, on a bus that delivers
  0x34, 0x12 for the X axis, 0x34, 0x12 for the Y axis and 0x78, 0x56 for the Z axis:
  the field \<open>x\<close> holds 0x5678, the value of the Z axis, and the fields \<open>y\<close> and \<open>z\<close>
  are never written (they keep what the uninitialised struct held, 0xBBBB and 0xCCCC).
\<close>

theorem C1_GetRawData_writes_x_only:
  "I3G4250D_GetRawData (axes_env (0x34, 0x12) (0x34, 0x12) (0x78, 0x56)) stack_garbage
         (I3G4250D_initial :: unit driver) =
     Inr (\<lparr> raw_x = 0x5678, raw_y = 0xBBBB, raw_z = 0xCCCC \<rparr>,
          I3G4250D_initial
            \<lparr>trace := [CS_ENABLE, SPI_Transmit [0xA8], SPI_Receive 2, CS_DISABLE,
                       CS_ENABLE, SPI_Transmit [0xAA], SPI_Receive 2, CS_DISABLE,
                       CS_ENABLE, SPI_Transmit [0xAC], SPI_Receive 2, CS_DISABLE],
             rx_calls := 3\<rparr>)"
  by (simp add: GetRawData_eq axes_env_def stack_garbage_def I3G4250D_initial_def assemble_def)

subsection \<open>Calibration and scaling\<close>

lemma calibrated_eq:
  "calibrated = I3G4250D_initial\<lparr>X_Scale := 2, Y_Scale := 2, Z_Scale := 2\<rparr>"
  by (simp add: calibrated_def I3G4250D_X_Calibrate_def I3G4250D_Y_Calibrate_def
      I3G4250D_Z_Calibrate_def I3G4250D_initial_def)

text \<open>
  C2. The claim: each axis's output is that axis's own raw value times the sensitivity
  times the axis's scale, minus the axis's bias, so a raw value of 100 with sensitivity
  17.50, scale 2.0 and bias 0 gives 3500.0. The code, with sensitivity 17.50, every scale
  2.0 and every bias 0, on a bus that delivers the raw values 100 for X, 7 for Y and 1 for
  Z: all three outputs are 35, computed from the one field \<open>x\<close> of the raw data, which
  holds the value of the Z axis.
\<close>

theorem C2_GetScaledData_uses_raw_x:
  "I3G4250D_GetScaledData (axes_env (0x64, 0x00) (0x07, 0x00) (0x01, 0x00)) stack_garbage
         calibrated =
     Inr (\<lparr> scaled_x = 35, scaled_y = 35, scaled_z = 35 \<rparr>,
          calibrated
            \<lparr>trace := [CS_ENABLE, SPI_Transmit [0xA8], SPI_Receive 2, CS_DISABLE,
                       CS_ENABLE, SPI_Transmit [0xAA], SPI_Receive 2, CS_DISABLE,
                       CS_ENABLE, SPI_Transmit [0xAC], SPI_Receive 2, CS_DISABLE],
             rx_calls := 3\<rparr>)"
  by (simp add: GetScaledData_eq calibrated_eq axes_env_def I3G4250D_initial_def
       assemble_def float_of_i16_def I3G4250D_SENSITIVTY_17_50_def)



text \<open>
  C10. Before any call of the driver the sensitivity is 17.50, the constant of the 500 dps
  range, not zero: scaled data read after calibration alone (each axis with a range
  \<open>max \<noteq> min\<close>), with no call of \<^verbatim>\<open>I3G4250D_Init\<close>, are computed from the raw data
  with the factor 17.50.
\<close>

theorem C10_initial_Sensitivity:
  assumes "xmax \<noteq> xmin" and "ymax \<noteq> ymin" and "zmax \<noteq> zmin"
  shows "I3G4250D_Sensitivity (I3G4250D_initial :: 'h driver) = 17.50
   \<and> I3G4250D_Sensitivity (I3G4250D_initial :: 'h driver) \<noteq> 0
   \<and> (\<exists>raw s1 s2.
        I3G4250D_GetRawData env tmp (I3G4250D_initial :: 'h driver) = Inr (raw, s1) \<and>
        I3G4250D_GetScaledData env tmp
          (I3G4250D_Z_Calibrate zmin zmax (I3G4250D_Y_Calibrate ymin ymax
            (I3G4250D_X_Calibrate xmin xmax (I3G4250D_initial :: 'h driver)))) =
        Inr (\<lparr> scaled_x =
                 float_of_i16 (raw_x raw) * 17.50 * (2000 / (xmax - xmin)) - (xmax + xmin) / 2,
               scaled_y =
                 float_of_i16 (raw_x raw) * 17.50 * (2000 / (ymax - ymin)) - (ymax + ymin) / 2,
               scaled_z =
                 float_of_i16 (raw_x raw) * 17.50 * (2000 / (zmax - zmin)) - (zmax + zmin) / 2 \<rparr>,
             s2))"
  by (simp add: GetScaledData_eq GetRawData_eq I3G4250D_X_Calibrate_def I3G4250D_Y_Calibrate_def
      I3G4250D_Z_Calibrate_def I3G4250D_initial_def I3G4250D_SENSITIVTY_17_50_def)

theorem C10_initial_Sensitivity_witness:
  "(1000::real) \<noteq> 0
   \<and> I3G4250D_Sensitivity (I3G4250D_initial :: unit driver) = 17.50
   \<and> map_sum id fst (I3G4250D_GetScaledData (axes_env (0, 0) (0, 0) (0x02, 0x00)) stack_garbage
        (I3G4250D_Z_Calibrate 0 1000 (I3G4250D_Y_Calibrate 0 1000
          (I3G4250D_X_Calibrate 0 1000 (I3G4250D_initial :: unit driver))))) =
     Inr \<lparr> scaled_x = - 430, scaled_y = - 430, scaled_z = - 430 \<rparr>"
proof -
  have h: "(1000::real) \<noteq> 0" by simp
  from C10_initial_Sensitivity [OF h h h, of "axes_env (0, 0) (0, 0) (0x02, 0x00)"
        stack_garbage, where 'h = unit]
  obtain raw s1 s2 where
    sens: "I3G4250D_Sensitivity (I3G4250D_initial :: unit driver) = 17.50" and
    raw: "I3G4250D_GetRawData (axes_env (0, 0) (0, 0) (0x02, 0x00)) stack_garbage
            (I3G4250D_initial :: unit driver) = Inr (raw, s1)" and
    sc: "I3G4250D_GetScaledData (axes_env (0, 0) (0, 0) (0x02, 0x00)) stack_garbage
        (I3G4250D_Z_Calibrate 0 1000 (I3G4250D_Y_Calibrate 0 1000
          (I3G4250D_X_Calibrate 0 1000 (I3G4250D_initial :: unit driver)))) =
        Inr (\<lparr> scaled_x = float_of_i16 (raw_x raw) * 17.50 * (2000 / (1000 - 0)) - (1000 + 0) / 2,
               scaled_y = float_of_i16 (raw_x raw) * 17.50 * (2000 / (1000 - 0)) - (1000 + 0) / 2,
               scaled_z = float_of_i16 (raw_x raw) * 17.50 * (2000 / (1000 - 0)) - (1000 + 0) / 2 \<rparr>,
             s2)"
    by blast
  from raw have "raw = stack_garbage\<lparr>raw_x := 2\<rparr>"
    by (simp add: GetRawData_eq axes_env_def I3G4250D_initial_def assemble_def)
  then have "raw_x raw = 2" by simp
  with sens sc h show ?thesis by (simp add: float_of_i16_def)
qed

subsection \<open>Polling for new data\<close>

lemma DataReady_loop_unfold:
  "DataReady_loop env st T s =
     (if spi_rx env (rx_calls s) 0 AND 0x07 = 0
      then (if tick_at env (tick_calls s) - ucast st < T
            then DataReady_loop env st T ((poll s)\<lparr>tick_calls := Suc (tick_calls s)\<rparr>)
            else Some (Inr (False, (poll s)\<lparr>tick_calls := Suc (tick_calls s)\<rparr>)))
      else Some (Inr (True, poll s)))"
  by (subst DataReady_loop.simps)
     (simp add: ReadIO_1 HAL_GetTick_def poll_def I3G4250D_STATUS_ADDR_def)

text \<open>
  Whenever the call returns, it returns without an error, and its result says whether the
  status byte read last had one of its low three bits set.
\<close>

lemma DataReady_loop_result:
  assumes "DataReady_loop env st T s = Some y"
  shows "\<exists>b s'. y = Inr (b, s') \<and> rx_calls s < rx_calls s' \<and>
                b = (spi_rx env (rx_calls s' - 1) 0 AND 0x07 \<noteq> 0)"
proof (rule DataReady_loop.raw_induct [OF _ assms], goal_cases)
  case (1 f env st T s y)
  show ?case
  proof (cases "spi_rx env (rx_calls s) 0 AND 0x07 = 0")
    case False
    with 1(2) have "y = Inr (True, poll s)"
      by (simp add: ReadIO_1 HAL_GetTick_def poll_def I3G4250D_STATUS_ADDR_def)
    with False have "y = Inr (True, poll s) \<and> rx_calls s < rx_calls (poll s) \<and>
        True = (spi_rx env (rx_calls (poll s) - 1) 0 AND 0x07 \<noteq> 0)"
      by (simp add: poll_def)
    then show ?thesis by blast
  next
    case True
    show ?thesis
    proof (cases "tick_at env (tick_calls s) - ucast st < T")
      case False
      with True 1(2) have "y = Inr (False, (poll s)\<lparr>tick_calls := Suc (tick_calls s)\<rparr>)"
        by (simp add: ReadIO_1 HAL_GetTick_def poll_def I3G4250D_STATUS_ADDR_def)
      with True have "y = Inr (False, (poll s)\<lparr>tick_calls := Suc (tick_calls s)\<rparr>) \<and>
          rx_calls s < rx_calls ((poll s)\<lparr>tick_calls := Suc (tick_calls s)\<rparr>) \<and>
          False = (spi_rx env (rx_calls ((poll s)\<lparr>tick_calls := Suc (tick_calls s)\<rparr>) - 1) 0
                     AND 0x07 \<noteq> 0)"
        by (simp add: poll_def)
      then show ?thesis by blast
    next
      case lt: True
      with True 1(2) have "f env st T ((poll s)\<lparr>tick_calls := Suc (tick_calls s)\<rparr>) = Some y"
        by (simp add: ReadIO_1 HAL_GetTick_def poll_def I3G4250D_STATUS_ADDR_def)
      then have "\<exists>b s'. y = Inr (b, s') \<and>
          rx_calls ((poll s)\<lparr>tick_calls := Suc (tick_calls s)\<rparr>) < rx_calls s' \<and>
          b = (spi_rx env (rx_calls s' - 1) 0 AND 0x07 \<noteq> 0)"
        by (rule 1(1))
      then obtain b s' where "y = Inr (b, s')"
          "rx_calls ((poll s)\<lparr>tick_calls := Suc (tick_calls s)\<rparr>) < rx_calls s'"
          "b = (spi_rx env (rx_calls s' - 1) 0 AND 0x07 \<noteq> 0)" by blast
      then have "y = Inr (b, s') \<and> rx_calls s < rx_calls s' \<and>
          b = (spi_rx env (rx_calls s' - 1) 0 AND 0x07 \<noteq> 0)"
        by (simp add: poll_def)
      then show ?thesis by blast
    qed
  qed
qed

lemma DataReady_result:
  assumes "I3G4250D_DataReady env msTimeOut s = Some y"
  shows "\<exists>b s'. y = Inr (b, s') \<and> b = (spi_rx env (rx_calls s' - 1) 0 AND 0x07 \<noteq> 0)"
proof -
  from assms have "DataReady_loop env (ucast (tick_at env (tick_calls s))) msTimeOut
      (s\<lparr>tick_calls := Suc (tick_calls s)\<rparr>) = Some y"
    by (simp add: I3G4250D_DataReady_def HAL_GetTick_def)
  from DataReady_loop_result [OF this] show ?thesis by blast
qed

text \<open>
  C7. The claim: the status register is read again and again until its low three bits are
  nonzero or the time elapsed since the first poll exceeds the timeout. The code, called
  with a timeout of 100 ms while the tick counter stands at 256 and the status register
  shows no new data yet: \<open>startTick\<close> is the low byte of 256, which is 0, so the
  elapsed time is computed as 256; the loop ends after one status read and the call
  returns false, with no time elapsed and new data due at the next read.
\<close>

theorem C7_DataReady_early_timeout:
  "I3G4250D_DataReady late_ready_env 100 (I3G4250D_initial :: unit driver) =
     Some (Inr (False, I3G4250D_initial
       \<lparr>trace := [CS_ENABLE, SPI_Transmit [0xA7], SPI_Receive 1, CS_DISABLE],
        rx_calls := 1, tick_calls := 2\<rparr>))"
  by (simp add: I3G4250D_DataReady_def HAL_GetTick_def DataReady_loop_unfold poll_def
        late_ready_env_def I3G4250D_initial_def)

text \<open>
  C3. The claim: the elapsed time is computed in a way that tolerates the wrap-around of
  the tick counter, so that wherever the counter stands at the start, a wait on a status
  register that never shows new data ends once the elapsed time exceeds the timeout. The
  code, called with a timeout of 32 ms when the counter stands 16 ticks before its
  wrap-around (0xFFFFFFF0) and advances by one per reading: one tick has elapsed at the
  first test of the loop, but with \<open>startTick\<close> cut to its low byte 0xF0 the elapsed time
  is computed as 0xFFFFFF01; the loop ends after one status read and the call returns
  false, 31 ms early and without ever waiting across the wrap-around.
\<close>

theorem C3_DataReady_gives_up_before_wraparound:
  "I3G4250D_DataReady (counting_env 0xFFFFFFF0) 0x20 (I3G4250D_initial :: unit driver) =
     Some (Inr (False, I3G4250D_initial
       \<lparr>trace := [CS_ENABLE, SPI_Transmit [0xA7], SPI_Receive 1, CS_DISABLE],
        rx_calls := 1, tick_calls := 2\<rparr>))
   \<and> tick_at (counting_env 0xFFFFFFF0) 1 - tick_at (counting_env 0xFFFFFFF0) 0 = 1
   \<and> tick_at (counting_env 0xFFFFFFF0) 1 - ucast (ucast (tick_at (counting_env 0xFFFFFFF0) 0) :: u8)
       = 0xFFFFFF01"
  by (simp add: I3G4250D_DataReady_def HAL_GetTick_def DataReady_loop_unfold poll_def
        counting_env_def I3G4250D_initial_def)

text \<open>
  A tick counter that moves by at most one between two readings and never stops reaches
  every value.
\<close>

lemma tick_next_aux:
  assumes step: "\<forall>n. tick (Suc n) = tick n \<or> tick (Suc n) = tick n + (1::u32)"
  shows "(\<forall>i\<le>d. tick (n + i) = tick n) \<or> (\<exists>i\<le>d. tick (n + i) = tick n + 1)"
proof (induction d)
  case 0
  then show ?case by simp
next
  case (Suc d)
  show ?case
  proof (cases "\<exists>i\<le>d. tick (n + i) = tick n + 1")
    case True
    then obtain i where "i \<le> d" "tick (n + i) = tick n + 1" by blast
    then have "i \<le> Suc d \<and> tick (n + i) = tick n + 1" by simp
    then show ?thesis by blast
  next
    case False
    with Suc have same: "\<forall>i\<le>d. tick (n + i) = tick n" by blast
    then have "tick (n + d) = tick n" by simp
    with step [rule_format, of "n + d"]
    have "tick (n + Suc d) = tick n \<or> tick (n + Suc d) = tick n + 1" by simp
    then show ?thesis
    proof
      assume eq: "tick (n + Suc d) = tick n"
      have "\<forall>i\<le>Suc d. tick (n + i) = tick n"
      proof (intro allI impI)
        fix i assume "i \<le> Suc d"
        then have "i \<le> d \<or> i = Suc d" by (simp add: le_Suc_eq)
        then show "tick (n + i) = tick n"
        proof
          assume "i \<le> d" with same show ?thesis by blast
        next
          assume "i = Suc d" with eq show ?thesis by blast
        qed
      qed
      then show ?thesis by (rule disjI1)
    next
      assume "tick (n + Suc d) = tick n + 1"
      then have "\<exists>i\<le>Suc d. tick (n + i) = tick n + 1" by blast
      then show ?thesis by (rule disjI2)
    qed
  qed
qed

lemma tick_next:
  assumes step: "\<forall>n. tick (Suc n) = tick n \<or> tick (Suc n) = tick n + (1::u32)"
      and live: "\<forall>n. \<exists>m>n. tick m \<noteq> tick n"
  shows "\<exists>m>n. tick m = tick n + 1"
proof -
  from live obtain m where m: "n < m" "tick m \<noteq> tick n" by blast
  then have nm: "n + (m - n) = m" by simp
  from tick_next_aux [OF step, of "m - n" n]
  show ?thesis
  proof
    assume "\<forall>i\<le>m - n. tick (n + i) = tick n"
    then have "tick (n + (m - n)) = tick n" by blast
    with nm m show ?thesis by simp
  next
    assume "\<exists>i\<le>m - n. tick (n + i) = tick n + 1"
    then obtain i where i: "tick (n + i) = tick n + 1" by blast
    have "i \<noteq> 0"
    proof
      assume "i = 0"
      with i have "tick n = tick n + 1" by simp
      then show False by simp
    qed
    then have "n < n + i" by simp
    with i show ?thesis by blast
  qed
qed

lemma tick_hits:
  assumes step: "\<forall>n. tick (Suc n) = tick n \<or> tick (Suc n) = tick n + (1::u32)"
      and live: "\<forall>n. \<exists>m>n. tick m \<noteq> tick n"
  shows "\<exists>m\<ge>n. tick m = v"
proof (induction k \<equiv> "unat (v - tick n)" arbitrary: n)
  case 0
  then have "unat (v - tick n) = 0" by (rule sym)
  then have "v - tick n = 0" by (simp only: unat_0_iff)
  then have "tick n = v" by simp
  then show ?case by blast
next
  case (Suc k)
  from tick_next [OF step live, of n] obtain m where m: "n < m" "tick m = tick n + 1" by blast
  have nz: "v - tick n \<noteq> 0"
  proof
    assume "v - tick n = 0"
    then have "unat (v - tick n) = 0" by (simp only: unat_0)
    with Suc.hyps(2) show False by simp
  qed
  have "v - tick m = (v - tick n) - 1" by (simp only: m) simp
  moreover have "unat ((v - tick n) - 1) = unat (v - tick n) - 1" using nz by (rule unat_minus_one)
  ultimately have "unat (v - tick m) = unat (v - tick n) - 1" by (simp only:)
  with Suc.hyps(2) have "k = unat (v - tick m)" by simp
  from Suc.hyps(1) [OF this] obtain m' where "m \<le> m'" "tick m' = v" by blast
  with m have "n \<le> m' \<and> tick m' = v" by simp
  then show ?case by blast
qed

text \<open>Facts on 32-bit words used for the loop below.\<close>

lemma word_lt_not_max:
  fixes x T :: u32
  assumes "x < T"
  shows "x \<noteq> - 1"
proof
  assume "x = - 1"
  with assms have "- 1 < T" by simp
  moreover have "T \<le> - 1" by (rule word_n1_ge)
  ultimately show False by simp
qed

lemma word_succ_mono:
  fixes e x :: u32
  assumes "e \<le> x" "x \<noteq> - 1"
  shows "e + 1 \<le> x + 1"
proof (cases "e = x")
  case True
  then show ?thesis by simp
next
  case False
  with assms have "e < x" by simp
  then have "e + 1 \<le> x" by (rule inc_le)
  moreover have "x \<le> x + 1"
  proof (rule ccontr)
    assume "\<not> x \<le> x + 1"
    then have "x + 1 \<le> x" by simp
    then have "x = - 1" by (rule inc_less_eq_triv_imp)
    with assms show False by simp
  qed
  ultimately show ?thesis by (rule order_trans)
qed

lemma sub_take: "(t0::u32) - take_bit 8 t0 = push_bit 8 (drop_bit 8 t0)"
proof -
  have "push_bit 8 (drop_bit 8 t0) + take_bit 8 t0 = t0" by (rule bits_ident)
  then have "push_bit 8 (drop_bit 8 t0) + take_bit 8 t0 - take_bit 8 t0 = t0 - take_bit 8 t0"
    by (simp only:)
  then show ?thesis by (simp only: add_diff_cancel_right')
qed

lemma ucast_take: "(ucast (ucast (t0::u32) :: u8) :: u32) = take_bit 8 t0"
  by (rule bit_eqI) (auto simp add: bit_simps)

lemma startTick_base: "(t0::u32) - ucast (ucast t0 :: u8) \<noteq> - 1"
proof
  assume a: "t0 - ucast (ucast t0 :: u8) = - 1"
  have "t0 - ucast (ucast t0 :: u8) = push_bit 8 (drop_bit 8 t0)"
    by (simp only: ucast_take sub_take)
  with a have "push_bit 8 (drop_bit 8 t0) = (- 1 :: u32)" by simp
  then have "bit (push_bit 8 (drop_bit 8 t0)) 0 = bit (- 1 :: u32) 0" by (simp only:)
  then show False by (simp add: bit_simps)
qed

text \<open>
  The loop with its invariant. \<open>n\<close> is the index of the tick reading before the
  current iteration, \<open>t0\<close> the tick value when the wait began, \<open>st\<close> the truncated
  start tick: the elapsed time the code computes is never below the true one, and
  some later reading \<open>j\<close> ends the loop.
\<close>

lemma DataReady_loop_exits:
  assumes never: "\<forall>k. spi_rx env k 0 AND 0x07 = 0"
      and step: "\<forall>n. tick_at env (Suc n) = tick_at env n \<or> tick_at env (Suc n) = tick_at env n + 1"
  shows "tick_calls s = Suc n \<Longrightarrow>
         tick_at env n - t0 \<le> tick_at env n - ucast st \<Longrightarrow>
         tick_at env n - ucast st \<noteq> - 1 \<Longrightarrow>
         tick_at env n - ucast st < T \<or> tick_at env n - t0 = 0 \<Longrightarrow>
         Suc n \<le> j \<Longrightarrow> \<not> (tick_at env j - ucast st < T) \<Longrightarrow>
         \<exists>s'. DataReady_loop env st T s = Some (Inr (False, s')) \<and>
              tick_at env (tick_calls s' - 1) - t0 \<le> max T 1"
proof (induction "j - n" arbitrary: s n rule: less_induct)
  case less
  define a where "a = tick_at env n"
  define a' where "a' = tick_at env (Suc n)"
  define u where "u = (ucast st :: u32)"
  have inv: "a - t0 \<le> a - u" and nmax: "a - u \<noteq> - 1"
    and prev: "a - u < T \<or> a - t0 = 0"
    using less.prems by (simp_all add: a_def u_def)
  from step have st: "a' = a \<or> a' = a + 1" by (simp add: a_def a'_def)
  have inv': "a' - t0 \<le> a' - u"
  proof -
    from st show ?thesis
    proof
      assume "a' = a" with inv show ?thesis by simp
    next
      assume "a' = a + 1"
      then have e1: "a' - t0 = (a - t0) + 1" and e2: "a' - u = (a - u) + 1" by simp_all
      show ?thesis unfolding e1 e2 by (rule word_succ_mono [OF inv nmax])
    qed
  qed
  have status: "spi_rx env (rx_calls s) 0 AND 0x07 = 0" using never by blast
  have unf: "DataReady_loop env st T s =
      (if a' - u < T
       then DataReady_loop env st T ((poll s)\<lparr>tick_calls := Suc (Suc n)\<rparr>)
       else Some (Inr (False, (poll s)\<lparr>tick_calls := Suc (Suc n)\<rparr>)))"
    by (subst DataReady_loop_unfold) (simp add: status less.prems(1) a'_def u_def)
  show ?case
  proof (cases "a' - u < T")
    case False
    have "a' - t0 \<le> max T 1"
    proof -
      from prev show ?thesis
      proof
        assume lt: "a - u < T"
        have "a' - u \<le> T"
          using st
        proof
          assume "a' = a" with lt show ?thesis by simp
        next
          assume "a' = a + 1"
          then have e2: "a' - u = (a - u) + 1" by simp
          show ?thesis unfolding e2 by (rule inc_le [OF lt])
        qed
        with inv' have "a' - t0 \<le> T" by (rule order_trans)
        then show ?thesis by (simp add: le_max_iff_disj)
      next
        assume z: "a - t0 = 0"
        from st have "a' - t0 = 0 \<or> a' - t0 = 1"
        proof
          assume "a' = a" with z show ?thesis by simp
        next
          assume "a' = a + 1"
          then have "a' - t0 = (a - t0) + 1" by simp
          then have "a' - t0 = 1" by (simp only: z) simp
          then show ?thesis by (rule disjI2)
        qed
        then show ?thesis by (auto simp add: le_max_iff_disj)
      qed
    qed
    with False unf show ?thesis by (simp add: a'_def)
  next
    case True
    have "j \<noteq> Suc n"
    proof
      assume "j = Suc n"
      with less.prems(6) have "\<not> (a' - u < T)" by (simp add: a'_def u_def)
      with True show False by simp
    qed
    with less.prems(5) have j: "Suc (Suc n) \<le> j" by simp
    then have dec: "j - Suc n < j - n" by simp
    have tc: "tick_calls ((poll s)\<lparr>tick_calls := Suc (Suc n)\<rparr>) = Suc (Suc n)" by simp
    have nmax': "tick_at env (Suc n) - ucast st \<noteq> - 1"
      using word_lt_not_max [OF True] by (simp add: a'_def u_def)
    have "\<exists>s'. DataReady_loop env st T ((poll s)\<lparr>tick_calls := Suc (Suc n)\<rparr>) = Some (Inr (False, s')) \<and>
              tick_at env (tick_calls s' - 1) - t0 \<le> max T 1"
      using less.hyps [OF dec tc _ nmax' _ j less.prems(6)] inv' True
      by (simp add: a'_def u_def)
    with True unf show ?thesis by simp
  qed
qed

text \<open>
  The wait is never longer than the timeout: if the status register never has one of
  its low three bits set, while the tick counter advances by at most one between two
  readings and never stops, the call returns false, and between the reading of the start
  tick and the last reading the counter has advanced (modulo \<open>2 ^ 32\<close>) by no more than
  the timeout, or by one when the timeout is 0. (It may be much shorter, as the two
  examples of an early return show.)
\<close>

lemma DataReady_never_late:
  assumes never: "\<forall>k. spi_rx env k 0 AND 0x07 = 0"
      and step: "\<forall>n. tick_at env (Suc n) = tick_at env n \<or> tick_at env (Suc n) = tick_at env n + 1"
      and live: "\<forall>n. \<exists>m>n. tick_at env m \<noteq> tick_at env n"
  shows "\<exists>s'. I3G4250D_DataReady env msTimeOut s = Some (Inr (False, s')) \<and>
              tick_at env (tick_calls s' - 1) - tick_at env (tick_calls s) \<le> max msTimeOut 1"
proof -
  define n0 where "n0 = tick_calls s"
  define t0 where "t0 = tick_at env n0"
  define st where "st = (ucast t0 :: u8)"
  from tick_hits [OF step live, of "Suc n0" "ucast st - 1"]
  obtain j where j: "Suc n0 \<le> j" "tick_at env j = ucast st - 1" by blast
  have "tick_at env j - ucast st = - 1" by (simp only: j) simp
  then have ex: "\<not> (tick_at env j - ucast st < msTimeOut)" by simp
  have tc: "tick_calls (s\<lparr>tick_calls := Suc n0\<rparr>) = Suc n0" by simp
  have inv: "tick_at env n0 - t0 \<le> tick_at env n0 - ucast st" by (simp add: t0_def)
  have nmax: "tick_at env n0 - ucast st \<noteq> - 1"
    unfolding st_def t0_def [symmetric] by (rule startTick_base)
  have prev: "tick_at env n0 - ucast st < msTimeOut \<or> tick_at env n0 - t0 = 0"
    by (simp add: t0_def)
  from DataReady_loop_exits [OF never step tc inv nmax prev j(1) ex]
  obtain s' where "DataReady_loop env st msTimeOut (s\<lparr>tick_calls := Suc n0\<rparr>) = Some (Inr (False, s'))"
    "tick_at env (tick_calls s' - 1) - t0 \<le> max msTimeOut 1" by blast
  then have "I3G4250D_DataReady env msTimeOut s = Some (Inr (False, s')) \<and>
     tick_at env (tick_calls s' - 1) - tick_at env (tick_calls s) \<le> max msTimeOut 1"
    by (simp add: I3G4250D_DataReady_def HAL_GetTick_def n0_def t0_def st_def)
  then show ?thesis by blast
qed

end
